theory Spec2Isabelle
  imports Main
begin

section \<open>DenseVectorProxy: the restriction gate in front of a dense vector\<close>

text \<open>
  The header \<^verbatim>\<open>blaze/math/proxy/DenseVectorProxy.h\<close> defines the class template
  \<^verbatim>\<open>DenseVectorProxy<PT,VT>\<close>. It has no data members of its own. Every member
  function downcasts to the derived proxy type \<^verbatim>\<open>PT\<close> (\<^verbatim>\<open>~*this\<close>), asks it for
  \<^verbatim>\<open>isRestricted()\<close> where the function is gated, and calls the same-named function
  of the represented vector \<^verbatim>\<open>(~*this).get()\<close> of type \<^verbatim>\<open>VT\<close>.

  Both template parameters are parameters of the model:
  \<^item> \<open>PT\<close> is the record of what the class uses of the derived proxy type, the
    predicate \<open>isRestricted\<close>, a function of the proxy object (type \<open>'p\<close>);
  \<^item> \<open>VT\<close> is the record of the operations the class calls on the represented
    vector. The vector that \<^verbatim>\<open>get()\<close> refers to is the store \<open>'v\<close>, passed to
    every call and returned by it.

  A C++ call either returns a value or throws, and may have changed the
  vector before it throws: a call is a function from the store to a result
  (\<open>Inl\<close> the exception thrown, \<open>Inr\<close> the value returned) and the store
  afterwards. \<^verbatim>\<open>size_t\<close> is \<open>nat\<close>: the class does no arithmetic on it.
\<close>

subsection \<open>Exceptions and calls\<close>

datatype exception =
    invalid_argument string
  | out_of_range string
  | bad_alloc

type_synonym ('x, 'v) call = "'v \<Rightarrow> (exception + 'x) \<times> 'v"

subsection \<open>The template parameters\<close>

text \<open>
  The member types \<^verbatim>\<open>VT::Reference\<close>, \<^verbatim>\<open>VT::Pointer\<close>, \<^verbatim>\<open>VT::Iterator\<close> and
  \<^verbatim>\<open>VT::ConstIterator\<close> are the type parameters \<open>'r\<close>, \<open>'ptr\<close>, \<open>'it\<close> and
  \<open>'cit\<close>; \<open>'o\<close> is the type \<^verbatim>\<open>Other\<close> of the scalar passed to \<^verbatim>\<open>scale\<close>.
  \<open>vt_reset\<close> and \<open>vt_clear\<close> are the functions \<^verbatim>\<open>reset( v )\<close> and \<^verbatim>\<open>clear( v )\<close>
  that the unqualified calls in \<^verbatim>\<open>DenseVectorProxy::reset\<close> and
  \<^verbatim>\<open>DenseVectorProxy::clear\<close> find for a vector of type \<^verbatim>\<open>VT\<close>.
\<close>

record ('v, 'r, 'ptr, 'it, 'cit, 'o) VT =
  vt_subscript :: "nat \<Rightarrow> ('r, 'v) call"
  vt_data :: "('ptr, 'v) call"
  vt_begin :: "('it, 'v) call"
  vt_cbegin :: "('cit, 'v) call"
  vt_end :: "('it, 'v) call"
  vt_cend :: "('cit, 'v) call"
  vt_size :: "(nat, 'v) call"
  vt_capacity :: "(nat, 'v) call"
  vt_nonZeros :: "(nat, 'v) call"
  vt_reset :: "(unit, 'v) call"
  vt_clear :: "(unit, 'v) call"
  vt_resize :: "nat \<Rightarrow> bool \<Rightarrow> (unit, 'v) call"
  vt_extend :: "nat \<Rightarrow> bool \<Rightarrow> (unit, 'v) call"
  vt_reserve :: "nat \<Rightarrow> (unit, 'v) call"
  vt_scale :: "'o \<Rightarrow> (unit, 'v) call"

record 'p PT =
  isRestricted :: "'p \<Rightarrow> bool"

subsection \<open>Data access functions\<close>

text \<open>
  \<^verbatim>\<open>
  if( (~*this).isRestricted() )
     throw std::invalid_argument( "Invalid access to restricted element" );
  return (~*this).get()[index];
  \<close>
  The members are named \<open>proxy_f\<close> for \<^verbatim>\<open>DenseVectorProxy<PT,VT>::f\<close>; \<open>px\<close> is the
  proxy object (\<^verbatim>\<open>~*this\<close>).
\<close>

definition proxy_subscript ::
  "'p PT \<Rightarrow> ('v, 'r, 'ptr, 'it, 'cit, 'o) VT \<Rightarrow> 'p \<Rightarrow> nat \<Rightarrow> ('r, 'v) call" where
  "proxy_subscript pt vt px index v =
     (if isRestricted pt px
      then (Inl (invalid_argument ''Invalid access to restricted element''), v)
      else vt_subscript vt index v)"

definition proxy_data ::
  "'p PT \<Rightarrow> ('v, 'r, 'ptr, 'it, 'cit, 'o) VT \<Rightarrow> 'p \<Rightarrow> ('ptr, 'v) call" where
  "proxy_data pt vt px v =
     (if isRestricted pt px
      then (Inl (invalid_argument ''Invalid access to restricted element''), v)
      else vt_data vt v)"

definition proxy_begin ::
  "'p PT \<Rightarrow> ('v, 'r, 'ptr, 'it, 'cit, 'o) VT \<Rightarrow> 'p \<Rightarrow> ('it, 'v) call" where
  "proxy_begin pt vt px v =
     (if isRestricted pt px
      then (Inl (invalid_argument ''Invalid access to restricted element''), v)
      else vt_begin vt v)"

definition proxy_cbegin ::
  "'p PT \<Rightarrow> ('v, 'r, 'ptr, 'it, 'cit, 'o) VT \<Rightarrow> 'p \<Rightarrow> ('cit, 'v) call" where
  "proxy_cbegin pt vt px v = vt_cbegin vt v"

definition proxy_end ::
  "'p PT \<Rightarrow> ('v, 'r, 'ptr, 'it, 'cit, 'o) VT \<Rightarrow> 'p \<Rightarrow> ('it, 'v) call" where
  "proxy_end pt vt px v =
     (if isRestricted pt px
      then (Inl (invalid_argument ''Invalid access to restricted element''), v)
      else vt_end vt v)"

definition proxy_cend ::
  "'p PT \<Rightarrow> ('v, 'r, 'ptr, 'it, 'cit, 'o) VT \<Rightarrow> 'p \<Rightarrow> ('cit, 'v) call" where
  "proxy_cend pt vt px v = vt_cend vt v"

subsection \<open>Utility functions\<close>

definition proxy_size ::
  "'p PT \<Rightarrow> ('v, 'r, 'ptr, 'it, 'cit, 'o) VT \<Rightarrow> 'p \<Rightarrow> (nat, 'v) call" where
  "proxy_size pt vt px v = vt_size vt v"

definition proxy_capacity ::
  "'p PT \<Rightarrow> ('v, 'r, 'ptr, 'it, 'cit, 'o) VT \<Rightarrow> 'p \<Rightarrow> (nat, 'v) call" where
  "proxy_capacity pt vt px v = vt_capacity vt v"

definition proxy_nonZeros ::
  "'p PT \<Rightarrow> ('v, 'r, 'ptr, 'it, 'cit, 'o) VT \<Rightarrow> 'p \<Rightarrow> (nat, 'v) call" where
  "proxy_nonZeros pt vt px v = vt_nonZeros vt v"

text \<open>
  \<^verbatim>\<open>
  using blaze::reset;
  reset( (~*this).get() );
  \<close>
  and the same for \<^verbatim>\<open>clear\<close>: neither asks \<^verbatim>\<open>isRestricted()\<close>.
\<close>

definition proxy_reset ::
  "'p PT \<Rightarrow> ('v, 'r, 'ptr, 'it, 'cit, 'o) VT \<Rightarrow> 'p \<Rightarrow> (unit, 'v) call" where
  "proxy_reset pt vt px v = vt_reset vt v"

definition proxy_clear ::
  "'p PT \<Rightarrow> ('v, 'r, 'ptr, 'it, 'cit, 'o) VT \<Rightarrow> 'p \<Rightarrow> (unit, 'v) call" where
  "proxy_clear pt vt px v = vt_clear vt v"

definition proxy_resize ::
  "'p PT \<Rightarrow> ('v, 'r, 'ptr, 'it, 'cit, 'o) VT \<Rightarrow> 'p \<Rightarrow> nat \<Rightarrow> bool \<Rightarrow> (unit, 'v) call" where
  "proxy_resize pt vt px n preserve v =
     (if isRestricted pt px
      then (Inl (invalid_argument ''Invalid access to restricted element''), v)
      else vt_resize vt n preserve v)"

definition proxy_extend ::
  "'p PT \<Rightarrow> ('v, 'r, 'ptr, 'it, 'cit, 'o) VT \<Rightarrow> 'p \<Rightarrow> nat \<Rightarrow> bool \<Rightarrow> (unit, 'v) call" where
  "proxy_extend pt vt px n preserve v =
     (if isRestricted pt px
      then (Inl (invalid_argument ''Invalid access to restricted element''), v)
      else vt_extend vt n preserve v)"

definition proxy_reserve ::
  "'p PT \<Rightarrow> ('v, 'r, 'ptr, 'it, 'cit, 'o) VT \<Rightarrow> 'p \<Rightarrow> nat \<Rightarrow> (unit, 'v) call" where
  "proxy_reserve pt vt px n v =
     (if isRestricted pt px
      then (Inl (invalid_argument ''Invalid access to restricted element''), v)
      else vt_reserve vt n v)"

definition proxy_scale ::
  "'p PT \<Rightarrow> ('v, 'r, 'ptr, 'it, 'cit, 'o) VT \<Rightarrow> 'p \<Rightarrow> 'o \<Rightarrow> (unit, 'v) call" where
  "proxy_scale pt vt px scalar v =
     (if isRestricted pt px
      then (Inl (invalid_argument ''Invalid access to restricted element''), v)
      else vt_scale vt scalar v)"

text \<open>
  The declarations \<^verbatim>\<open>resize( size_t n, bool preserve=true )\<close> and
  \<^verbatim>\<open>extend( size_t n, bool preserve=true )\<close> give the second parameter a default
  argument. A call site passes the flag or leaves it out: \<open>None\<close> is the call
  \<^verbatim>\<open>resize( n )\<close>, \<open>Some b\<close> the call \<^verbatim>\<open>resize( n, b )\<close>.
\<close>

definition resize_default_preserve :: bool where
  "resize_default_preserve = True"

definition extend_default_preserve :: bool where
  "extend_default_preserve = True"

definition call_resize ::
  "'p PT \<Rightarrow> ('v, 'r, 'ptr, 'it, 'cit, 'o) VT \<Rightarrow> 'p \<Rightarrow> nat \<Rightarrow> bool option \<Rightarrow> (unit, 'v) call" where
  "call_resize pt vt px n arg v =
     proxy_resize pt vt px n
       (case arg of None \<Rightarrow> resize_default_preserve | Some preserve \<Rightarrow> preserve) v"

definition call_extend ::
  "'p PT \<Rightarrow> ('v, 'r, 'ptr, 'it, 'cit, 'o) VT \<Rightarrow> 'p \<Rightarrow> nat \<Rightarrow> bool option \<Rightarrow> (unit, 'v) call" where
  "call_extend pt vt px n arg v =
     proxy_extend pt vt px n
       (case arg of None \<Rightarrow> extend_default_preserve | Some preserve \<Rightarrow> preserve) v"

subsection \<open>Global functions\<close>

text \<open>
  The header declares and defines nine global functions on a
  \<^verbatim>\<open>const DenseVectorProxy<PT,VT>&\<close>, each a single call of the member:
  \<^verbatim>\<open>begin\<close>, \<^verbatim>\<open>cbegin\<close>, \<^verbatim>\<open>end\<close>, \<^verbatim>\<open>cend\<close>, \<^verbatim>\<open>size\<close>, \<^verbatim>\<open>capacity\<close>, \<^verbatim>\<open>nonZeros\<close>,
  \<^verbatim>\<open>reset\<close> and \<^verbatim>\<open>clear\<close>. The global function \<^verbatim>\<open>f( proxy )\<close> is \<open>global_f\<close>.
\<close>

definition global_begin ::
  "'p PT \<Rightarrow> ('v, 'r, 'ptr, 'it, 'cit, 'o) VT \<Rightarrow> 'p \<Rightarrow> ('it, 'v) call" where
  "global_begin pt vt proxy v = proxy_begin pt vt proxy v"

definition global_cbegin ::
  "'p PT \<Rightarrow> ('v, 'r, 'ptr, 'it, 'cit, 'o) VT \<Rightarrow> 'p \<Rightarrow> ('cit, 'v) call" where
  "global_cbegin pt vt proxy v = proxy_cbegin pt vt proxy v"

definition global_end ::
  "'p PT \<Rightarrow> ('v, 'r, 'ptr, 'it, 'cit, 'o) VT \<Rightarrow> 'p \<Rightarrow> ('it, 'v) call" where
  "global_end pt vt proxy v = proxy_end pt vt proxy v"

definition global_cend ::
  "'p PT \<Rightarrow> ('v, 'r, 'ptr, 'it, 'cit, 'o) VT \<Rightarrow> 'p \<Rightarrow> ('cit, 'v) call" where
  "global_cend pt vt proxy v = proxy_cend pt vt proxy v"

definition global_size ::
  "'p PT \<Rightarrow> ('v, 'r, 'ptr, 'it, 'cit, 'o) VT \<Rightarrow> 'p \<Rightarrow> (nat, 'v) call" where
  "global_size pt vt proxy v = proxy_size pt vt proxy v"

definition global_capacity ::
  "'p PT \<Rightarrow> ('v, 'r, 'ptr, 'it, 'cit, 'o) VT \<Rightarrow> 'p \<Rightarrow> (nat, 'v) call" where
  "global_capacity pt vt proxy v = proxy_capacity pt vt proxy v"

definition global_nonZeros ::
  "'p PT \<Rightarrow> ('v, 'r, 'ptr, 'it, 'cit, 'o) VT \<Rightarrow> 'p \<Rightarrow> (nat, 'v) call" where
  "global_nonZeros pt vt proxy v = proxy_nonZeros pt vt proxy v"

definition global_reset ::
  "'p PT \<Rightarrow> ('v, 'r, 'ptr, 'it, 'cit, 'o) VT \<Rightarrow> 'p \<Rightarrow> (unit, 'v) call" where
  "global_reset pt vt proxy v = proxy_reset pt vt proxy v"

definition global_clear ::
  "'p PT \<Rightarrow> ('v, 'r, 'ptr, 'it, 'cit, 'o) VT \<Rightarrow> 'p \<Rightarrow> (unit, 'v) call" where
  "global_clear pt vt proxy v = proxy_clear pt vt proxy v"

subsection \<open>The operation surface as data\<close>

text \<open>
  A call of the proxy with its arguments, and what a call returns. \<open>proxy_member\<close>
  is the member call, \<open>representee_call\<close> the same call made on the represented
  vector itself. \<open>global_function\<close> is the global function of that name where
  the header has one (the nine functions between the lines
  \<^verbatim>\<open>DenseVectorProxy global functions\<close> and the end of the namespace), and \<open>None\<close>
  where it has none.
\<close>

datatype 'o operation =
    Subscript nat
  | Data
  | Begin
  | CBegin
  | End
  | CEnd
  | Size
  | Capacity
  | NonZeros
  | Reset
  | Clear
  | Resize nat bool
  | Extend nat bool
  | Reserve nat
  | Scale 'o

datatype ('r, 'ptr, 'it, 'cit) result =
    Reference 'r
  | Pointer 'ptr
  | Iterator 'it
  | ConstIterator 'cit
  | Size_t nat
  | Void

definition returning ::
  "('x \<Rightarrow> 'y) \<Rightarrow> (exception + 'x) \<times> 'v \<Rightarrow> (exception + 'y) \<times> 'v" where
  "returning f out = (case out of (Inl e, v) \<Rightarrow> (Inl e, v) | (Inr x, v) \<Rightarrow> (Inr (f x), v))"

fun proxy_member ::
  "'p PT \<Rightarrow> ('v, 'r, 'ptr, 'it, 'cit, 'o) VT \<Rightarrow> 'p \<Rightarrow> 'o operation
     \<Rightarrow> (('r, 'ptr, 'it, 'cit) result, 'v) call" where
  "proxy_member pt vt px (Subscript index) v = returning Reference (proxy_subscript pt vt px index v)"
| "proxy_member pt vt px Data v = returning Pointer (proxy_data pt vt px v)"
| "proxy_member pt vt px Begin v = returning Iterator (proxy_begin pt vt px v)"
| "proxy_member pt vt px CBegin v = returning ConstIterator (proxy_cbegin pt vt px v)"
| "proxy_member pt vt px End v = returning Iterator (proxy_end pt vt px v)"
| "proxy_member pt vt px CEnd v = returning ConstIterator (proxy_cend pt vt px v)"
| "proxy_member pt vt px Size v = returning Size_t (proxy_size pt vt px v)"
| "proxy_member pt vt px Capacity v = returning Size_t (proxy_capacity pt vt px v)"
| "proxy_member pt vt px NonZeros v = returning Size_t (proxy_nonZeros pt vt px v)"
| "proxy_member pt vt px Reset v = returning (\<lambda>_. Void) (proxy_reset pt vt px v)"
| "proxy_member pt vt px Clear v = returning (\<lambda>_. Void) (proxy_clear pt vt px v)"
| "proxy_member pt vt px (Resize n preserve) v =
     returning (\<lambda>_. Void) (proxy_resize pt vt px n preserve v)"
| "proxy_member pt vt px (Extend n preserve) v =
     returning (\<lambda>_. Void) (proxy_extend pt vt px n preserve v)"
| "proxy_member pt vt px (Reserve n) v = returning (\<lambda>_. Void) (proxy_reserve pt vt px n v)"
| "proxy_member pt vt px (Scale scalar) v = returning (\<lambda>_. Void) (proxy_scale pt vt px scalar v)"

fun representee_call ::
  "('v, 'r, 'ptr, 'it, 'cit, 'o) VT \<Rightarrow> 'o operation
     \<Rightarrow> (('r, 'ptr, 'it, 'cit) result, 'v) call" where
  "representee_call vt (Subscript index) v = returning Reference (vt_subscript vt index v)"
| "representee_call vt Data v = returning Pointer (vt_data vt v)"
| "representee_call vt Begin v = returning Iterator (vt_begin vt v)"
| "representee_call vt CBegin v = returning ConstIterator (vt_cbegin vt v)"
| "representee_call vt End v = returning Iterator (vt_end vt v)"
| "representee_call vt CEnd v = returning ConstIterator (vt_cend vt v)"
| "representee_call vt Size v = returning Size_t (vt_size vt v)"
| "representee_call vt Capacity v = returning Size_t (vt_capacity vt v)"
| "representee_call vt NonZeros v = returning Size_t (vt_nonZeros vt v)"
| "representee_call vt Reset v = returning (\<lambda>_. Void) (vt_reset vt v)"
| "representee_call vt Clear v = returning (\<lambda>_. Void) (vt_clear vt v)"
| "representee_call vt (Resize n preserve) v = returning (\<lambda>_. Void) (vt_resize vt n preserve v)"
| "representee_call vt (Extend n preserve) v = returning (\<lambda>_. Void) (vt_extend vt n preserve v)"
| "representee_call vt (Reserve n) v = returning (\<lambda>_. Void) (vt_reserve vt n v)"
| "representee_call vt (Scale scalar) v = returning (\<lambda>_. Void) (vt_scale vt scalar v)"

fun global_function ::
  "'p PT \<Rightarrow> ('v, 'r, 'ptr, 'it, 'cit, 'o) VT \<Rightarrow> 'p \<Rightarrow> 'o operation
     \<Rightarrow> (('r, 'ptr, 'it, 'cit) result, 'v) call option" where
  "global_function pt vt proxy Begin = Some (\<lambda>v. returning Iterator (global_begin pt vt proxy v))"
| "global_function pt vt proxy CBegin =
     Some (\<lambda>v. returning ConstIterator (global_cbegin pt vt proxy v))"
| "global_function pt vt proxy End = Some (\<lambda>v. returning Iterator (global_end pt vt proxy v))"
| "global_function pt vt proxy CEnd =
     Some (\<lambda>v. returning ConstIterator (global_cend pt vt proxy v))"
| "global_function pt vt proxy Size = Some (\<lambda>v. returning Size_t (global_size pt vt proxy v))"
| "global_function pt vt proxy Capacity =
     Some (\<lambda>v. returning Size_t (global_capacity pt vt proxy v))"
| "global_function pt vt proxy NonZeros =
     Some (\<lambda>v. returning Size_t (global_nonZeros pt vt proxy v))"
| "global_function pt vt proxy Reset =
     Some (\<lambda>v. returning (\<lambda>_. Void) (global_reset pt vt proxy v))"
| "global_function pt vt proxy Clear =
     Some (\<lambda>v. returning (\<lambda>_. Void) (global_clear pt vt proxy v))"
| "global_function pt vt proxy (Subscript index) = None"
| "global_function pt vt proxy Data = None"
| "global_function pt vt proxy (Resize n preserve) = None"
| "global_function pt vt proxy (Extend n preserve) = None"
| "global_function pt vt proxy (Reserve n) = None"
| "global_function pt vt proxy (Scale scalar) = None"

text \<open>
  The members whose body starts with the test of \<^verbatim>\<open>isRestricted()\<close>.
\<close>

fun gated :: "'o operation \<Rightarrow> bool" where
  "gated (Subscript index) = True"
| "gated Data = True"
| "gated Begin = True"
| "gated End = True"
| "gated (Resize n preserve) = True"
| "gated (Extend n preserve) = True"
| "gated (Reserve n) = True"
| "gated (Scale scalar) = True"
| "gated CBegin = False"
| "gated CEnd = False"
| "gated Size = False"
| "gated Capacity = False"
| "gated NonZeros = False"
| "gated Reset = False"
| "gated Clear = False"

text \<open>
  A caller making one call after the other. The proxy object may change between
  two calls, so each call comes with the proxy object as it is when the call
  is made; the vector each call leaves is the vector the next call finds. The
  result is the outcome of every call, in order, and the vector at the end.
\<close>

fun calls ::
  "'p PT \<Rightarrow> ('v, 'r, 'ptr, 'it, 'cit, 'o) VT \<Rightarrow> ('p \<times> 'o operation) list \<Rightarrow> 'v
     \<Rightarrow> (exception + ('r, 'ptr, 'it, 'cit) result) list \<times> 'v" where
  "calls pt vt [] v = ([], v)"
| "calls pt vt ((px, c) # rest) v =
     (case proxy_member pt vt px c v of
        (out, v') \<Rightarrow> (case calls pt vt rest v' of (outs, v'') \<Rightarrow> (out # outs, v'')))"

subsection \<open>A dense vector and a proxy variant to run the class on\<close>

text \<open>
  Modelled from the spec: the Representee. No vector class is part of the header;
  the specification describes the Representee as a mutable sequence of a fixed
  element type with an element count (\<open>size\<close>), an allocated capacity and a
  count of non-default elements, \<open>size \<le> capacity\<close>, and lists its operations:
  indexed access returning a mutable reference, \<open>data\<close>, mutable and constant
  \<open>begin\<close> and \<open>end\<close>, \<open>resize(n, preserve)\<close> (afterwards \<open>size\<close> is \<open>n\<close>, the
  elements at indices valid before and after keep their values with
  \<open>preserve\<close>), \<open>extend(n, preserve)\<close> (\<open>n\<close> additional elements), \<open>reserve(n)\<close>
  (capacity at least \<open>n\<close>, elements kept), \<open>scale(scalar)\<close> (\<open>[1,2,3]\<close> scaled by
  \<open>2\<close> is \<open>[2,4,6]\<close>), \<open>reset\<close> (every element set to its default) and \<open>clear\<close>
  (the container emptied). An index out of range is an out-of-range failure,
  one of the two behaviours the specification names. A reference, a pointer
  and an iterator are positions in the sequence; elements the specification
  leaves unspecified after a growing resize are the default value.
\<close>

record 'a dense_vector =
  elements :: "'a list"
  allocated :: nat

definition dv_subscript :: "nat \<Rightarrow> (nat, 'a dense_vector) call" where
  "dv_subscript index v =
     (if index < length (elements v) then (Inr index, v)
      else (Inl (out_of_range ''Invalid vector access index''), v))"

definition dv_data :: "(nat, 'a dense_vector) call" where
  "dv_data v = (Inr 0, v)"

definition dv_begin :: "(nat, 'a dense_vector) call" where
  "dv_begin v = (Inr 0, v)"

definition dv_end :: "(nat, 'a dense_vector) call" where
  "dv_end v = (Inr (length (elements v)), v)"

definition dv_size :: "(nat, 'a dense_vector) call" where
  "dv_size v = (Inr (length (elements v)), v)"

definition dv_capacity :: "(nat, 'a dense_vector) call" where
  "dv_capacity v = (Inr (allocated v), v)"

definition dv_nonZeros :: "(nat, ('a::zero) dense_vector) call" where
  "dv_nonZeros v = (Inr (length (filter (\<lambda>x. x \<noteq> 0) (elements v))), v)"

definition dv_reset :: "(unit, ('a::zero) dense_vector) call" where
  "dv_reset v = (Inr (), v\<lparr>elements := map (\<lambda>_. 0) (elements v)\<rparr>)"

definition dv_clear :: "(unit, 'a dense_vector) call" where
  "dv_clear v = (Inr (), v\<lparr>elements := []\<rparr>)"

definition dv_resize :: "nat \<Rightarrow> bool \<Rightarrow> (unit, ('a::zero) dense_vector) call" where
  "dv_resize n preserve v =
     (Inr (),
      v\<lparr>elements :=
           (if preserve then take n (elements v) @ replicate (n - length (elements v)) 0
            else replicate n 0),
        allocated := max (allocated v) n\<rparr>)"

definition dv_extend :: "nat \<Rightarrow> bool \<Rightarrow> (unit, ('a::zero) dense_vector) call" where
  "dv_extend n preserve v = dv_resize (length (elements v) + n) preserve v"

definition dv_reserve :: "nat \<Rightarrow> (unit, 'a dense_vector) call" where
  "dv_reserve n v = (Inr (), v\<lparr>allocated := max (allocated v) n\<rparr>)"

definition dv_scale :: "'a \<Rightarrow> (unit, ('a::{zero,times}) dense_vector) call" where
  "dv_scale scalar v = (Inr (), v\<lparr>elements := map (\<lambda>x. x * scalar) (elements v)\<rparr>)"

text \<open>
  Modelled from the spec: the vector type of this Representee, the operation set
  the specification lists for it (its section 6), each operation as defined
  above; the constant iterators are the positions the mutable ones are.
\<close>

definition DenseVector :: "(('a::{zero,times}) dense_vector, nat, nat, nat, nat, 'a) VT" where
  "DenseVector =
     \<lparr>vt_subscript = dv_subscript, vt_data = dv_data, vt_begin = dv_begin,
      vt_cbegin = dv_begin, vt_end = dv_end, vt_cend = dv_end, vt_size = dv_size,
      vt_capacity = dv_capacity, vt_nonZeros = dv_nonZeros, vt_reset = dv_reset,
      vt_clear = dv_clear, vt_resize = dv_resize, vt_extend = dv_extend,
      vt_reserve = dv_reserve, vt_scale = dv_scale\<rparr>"

text \<open>
  Modelled from the spec: writing through the mutable reference that indexed
  access returns, and reading it. A reference that no longer points into the
  sequence reads \<open>None\<close>.
\<close>

definition reference_assign :: "nat \<Rightarrow> 'a \<Rightarrow> 'a dense_vector \<Rightarrow> 'a dense_vector" where
  "reference_assign r x v = v\<lparr>elements := (elements v)[r := x]\<rparr>"

definition reference_value :: "nat \<Rightarrow> 'a dense_vector \<Rightarrow> 'a option" where
  "reference_value r v = (if r < length (elements v) then Some (elements v ! r) else None)"

text \<open>
  The statement \<^verbatim>\<open>proxy[index] = x;\<close> on a proxy of this vector, and the
  expression \<^verbatim>\<open>vector[index]\<close> read on the vector itself (\<open>None\<close> when the
  subscript throws).
\<close>

definition proxy_assign_element ::
  "'p PT \<Rightarrow> 'p \<Rightarrow> nat \<Rightarrow> 'a \<Rightarrow> (unit, ('a::{zero,times}) dense_vector) call" where
  "proxy_assign_element pt px index x v =
     (case proxy_subscript pt DenseVector px index v of
        (Inl e, v') \<Rightarrow> (Inl e, v')
      | (Inr r, v') \<Rightarrow> (Inr (), reference_assign r x v'))"

definition representee_read :: "nat \<Rightarrow> ('a::{zero,times}) dense_vector \<Rightarrow> 'a option" where
  "representee_read index v =
     (case vt_subscript DenseVector index v of
        (Inl e, v') \<Rightarrow> None
      | (Inr r, v') \<Rightarrow> reference_value r v')"

text \<open>
  A proxy variant whose object is a stored flag, which its \<^verbatim>\<open>isRestricted()\<close>
  returns.
\<close>

definition FlagProxy :: "bool PT" where
  "FlagProxy = \<lparr>isRestricted = (\<lambda>restricted. restricted)\<rparr>"

section \<open>Properties\<close>

subsection \<open>Shared facts about the operation surface\<close>

lemma gated_member:
  "gated c \<Longrightarrow>
   proxy_member pt vt px c v =
     (if isRestricted pt px
      then (Inl (invalid_argument ''Invalid access to restricted element''), v)
      else representee_call vt c v)"
  by (cases c)
     (simp_all add: returning_def proxy_subscript_def proxy_data_def proxy_begin_def
        proxy_end_def proxy_resize_def proxy_extend_def proxy_reserve_def proxy_scale_def)

lemma ungated_member:
  "\<not> gated c \<Longrightarrow> proxy_member pt vt px c v = representee_call vt c v"
  by (cases c)
     (simp_all add: proxy_cbegin_def proxy_cend_def proxy_size_def proxy_capacity_def
        proxy_nonZeros_def proxy_reset_def proxy_clear_def)

lemma calls_append:
  "calls pt vt (cs @ ds) v =
     (case calls pt vt cs v of
        (outs, v') \<Rightarrow> (case calls pt vt ds v' of (outs', v'') \<Rightarrow> (outs @ outs', v'')))"
  by (induction cs arbitrary: v) (auto split: prod.splits)

lemma isRestricted_FlagProxy: "isRestricted FlagProxy restricted = restricted"
  by (simp add: FlagProxy_def)

lemma DenseVector_fields:
  "vt_subscript DenseVector = dv_subscript"
  "vt_data DenseVector = dv_data"
  "vt_begin DenseVector = dv_begin"
  "vt_cbegin DenseVector = dv_begin"
  "vt_end DenseVector = dv_end"
  "vt_cend DenseVector = dv_end"
  "vt_size DenseVector = dv_size"
  "vt_capacity DenseVector = dv_capacity"
  "vt_nonZeros DenseVector = dv_nonZeros"
  "vt_reset DenseVector = dv_reset"
  "vt_clear DenseVector = dv_clear"
  "vt_resize DenseVector = dv_resize"
  "vt_extend DenseVector = dv_extend"
  "vt_reserve DenseVector = dv_reserve"
  "vt_scale DenseVector = dv_scale"
  by (simp_all add: DenseVector_def)

lemma replicate_two: "replicate 2 x = [x, x]"
  by (simp add: numeral_2_eq_2)

subsection \<open>C1: a restricted proxy denies every gated operation\<close>

text \<open>
  C1. When \<^verbatim>\<open>isRestricted()\<close> is true, each of \<^verbatim>\<open>operator[]\<close>, \<^verbatim>\<open>data\<close>, \<^verbatim>\<open>begin\<close>,
  \<^verbatim>\<open>end\<close>, \<^verbatim>\<open>resize\<close>, \<^verbatim>\<open>extend\<close>, \<^verbatim>\<open>reserve\<close> and \<^verbatim>\<open>scale\<close> throws the
  access-restricted error and returns the vector it was given: the outcome is
  the same for every vector type \<open>vt\<close>, so no operation of the Representee has
  run, and the store is unchanged, so its size, capacity, non-zero count and
  elements are.
\<close>

theorem restricted_gate_denies:
  assumes "isRestricted pt px"
  shows "proxy_subscript pt vt px index v =
           (Inl (invalid_argument ''Invalid access to restricted element''), v)
       \<and> proxy_data pt vt px v =
           (Inl (invalid_argument ''Invalid access to restricted element''), v)
       \<and> proxy_begin pt vt px v =
           (Inl (invalid_argument ''Invalid access to restricted element''), v)
       \<and> proxy_end pt vt px v =
           (Inl (invalid_argument ''Invalid access to restricted element''), v)
       \<and> proxy_resize pt vt px n preserve v =
           (Inl (invalid_argument ''Invalid access to restricted element''), v)
       \<and> proxy_extend pt vt px n preserve v =
           (Inl (invalid_argument ''Invalid access to restricted element''), v)
       \<and> proxy_reserve pt vt px n v =
           (Inl (invalid_argument ''Invalid access to restricted element''), v)
       \<and> proxy_scale pt vt px scalar v =
           (Inl (invalid_argument ''Invalid access to restricted element''), v)"
  using assms
  by (simp add: proxy_subscript_def proxy_data_def proxy_begin_def proxy_end_def
      proxy_resize_def proxy_extend_def proxy_reserve_def proxy_scale_def)

theorem restricted_gate_denies_witness:
  "isRestricted FlagProxy True
   \<and> proxy_subscript FlagProxy DenseVector True 1 \<lparr>elements = [1, 2, 3 :: int], allocated = 4\<rparr> =
       (Inl (invalid_argument ''Invalid access to restricted element''),
        \<lparr>elements = [1, 2, 3], allocated = 4\<rparr>)
   \<and> proxy_resize FlagProxy DenseVector True 5 True \<lparr>elements = [1, 2, 3 :: int], allocated = 4\<rparr> =
       (Inl (invalid_argument ''Invalid access to restricted element''),
        \<lparr>elements = [1, 2, 3], allocated = 4\<rparr>)
   \<and> proxy_scale FlagProxy DenseVector True 2 \<lparr>elements = [1, 2, 3 :: int], allocated = 4\<rparr> =
       (Inl (invalid_argument ''Invalid access to restricted element''),
        \<lparr>elements = [1, 2, 3], allocated = 4\<rparr>)"
  using restricted_gate_denies [of FlagProxy True DenseVector 1
      "\<lparr>elements = [1, 2, 3 :: int], allocated = 4\<rparr>" 5 True 2]
  by (simp add: isRestricted_FlagProxy)

subsection \<open>C2: reset and clear are not gated\<close>

text \<open>
  C2. Whatever \<^verbatim>\<open>isRestricted()\<close> returns, \<^verbatim>\<open>reset()\<close> and \<^verbatim>\<open>clear()\<close> are the
  Representee's own \<^verbatim>\<open>reset\<close> and \<^verbatim>\<open>clear\<close>: the proxy raises nothing of its
  own, and the Representee is changed as the direct call changes it.
\<close>

theorem reset_clear_not_gated:
  "proxy_reset pt vt px v = vt_reset vt v \<and> proxy_clear pt vt px v = vt_clear vt v"
  by (simp add: proxy_reset_def proxy_clear_def)

theorem reset_clear_not_gated_witness:
  "isRestricted FlagProxy True
   \<and> proxy_reset FlagProxy DenseVector True \<lparr>elements = [1, 2, 3 :: int], allocated = 4\<rparr> =
       (Inr (), \<lparr>elements = [0, 0, 0], allocated = 4\<rparr>)
   \<and> proxy_clear FlagProxy DenseVector True \<lparr>elements = [1, 2, 3 :: int], allocated = 4\<rparr> =
       (Inr (), \<lparr>elements = [], allocated = 4\<rparr>)"
  using reset_clear_not_gated [of FlagProxy DenseVector True
      "\<lparr>elements = [1, 2, 3 :: int], allocated = 4\<rparr>"]
  by (simp add: isRestricted_FlagProxy DenseVector_fields dv_reset_def dv_clear_def)

subsection \<open>C3: the global functions\<close>

text \<open>
  C3 as stated asks for a global function for every operation of the proxy.
  The header has none for \<^verbatim>\<open>resize\<close> (nor for \<^verbatim>\<open>operator[]\<close>, \<^verbatim>\<open>data\<close>,
  \<^verbatim>\<open>extend\<close>, \<^verbatim>\<open>reserve\<close> and \<^verbatim>\<open>scale\<close>).
\<close>

theorem no_global_resize:
  "global_function FlagProxy (DenseVector :: (int dense_vector, nat, nat, nat, nat, int) VT)
     False (Resize 5 True) = None"
  by simp

text \<open>
  C3, amended. Each of the nine global functions \<^verbatim>\<open>begin\<close>, \<^verbatim>\<open>cbegin\<close>, \<^verbatim>\<open>end\<close>,
  \<^verbatim>\<open>cend\<close>, \<^verbatim>\<open>size\<close>, \<^verbatim>\<open>capacity\<close>, \<^verbatim>\<open>nonZeros\<close>, \<^verbatim>\<open>reset\<close> and \<^verbatim>\<open>clear\<close> gives, on
  every proxy (restricted or not) and every vector, the result or the error
  of the member of the same name; and an operation has a global function in
  this header exactly when it is one of these nine.
\<close>

theorem global_functions_delegate:
  "global_begin pt vt px v = proxy_begin pt vt px v
   \<and> global_cbegin pt vt px v = proxy_cbegin pt vt px v
   \<and> global_end pt vt px v = proxy_end pt vt px v
   \<and> global_cend pt vt px v = proxy_cend pt vt px v
   \<and> global_size pt vt px v = proxy_size pt vt px v
   \<and> global_capacity pt vt px v = proxy_capacity pt vt px v
   \<and> global_nonZeros pt vt px v = proxy_nonZeros pt vt px v
   \<and> global_reset pt vt px v = proxy_reset pt vt px v
   \<and> global_clear pt vt px v = proxy_clear pt vt px v
   \<and> (case global_function pt vt px c of
        Some f \<Rightarrow>
          f v = proxy_member pt vt px c v
          \<and> c \<in> {Begin, CBegin, End, CEnd, Size, Capacity, NonZeros, Reset, Clear}
      | None \<Rightarrow> c \<notin> {Begin, CBegin, End, CEnd, Size, Capacity, NonZeros, Reset, Clear})"
  by (cases c)
     (simp_all add: global_begin_def global_cbegin_def global_end_def global_cend_def
        global_size_def global_capacity_def global_nonZeros_def global_reset_def
        global_clear_def)

theorem global_functions_delegate_witness:
  "global_begin FlagProxy DenseVector True \<lparr>elements = [1, 2, 3 :: int], allocated = 4\<rparr> =
     (Inl (invalid_argument ''Invalid access to restricted element''),
      \<lparr>elements = [1, 2, 3], allocated = 4\<rparr>)
   \<and> global_end FlagProxy DenseVector False \<lparr>elements = [1, 2, 3 :: int], allocated = 4\<rparr> =
     (Inr 3, \<lparr>elements = [1, 2, 3], allocated = 4\<rparr>)
   \<and> global_size FlagProxy DenseVector True \<lparr>elements = [1, 2, 3 :: int], allocated = 4\<rparr> =
     (Inr 3, \<lparr>elements = [1, 2, 3], allocated = 4\<rparr>)
   \<and> global_clear FlagProxy DenseVector True \<lparr>elements = [1, 2, 3 :: int], allocated = 4\<rparr> =
     (Inr (), \<lparr>elements = [], allocated = 4\<rparr>)"
  using global_functions_delegate [of FlagProxy DenseVector True
      "\<lparr>elements = [1, 2, 3 :: int], allocated = 4\<rparr>" Size]
    global_functions_delegate [of FlagProxy DenseVector False
      "\<lparr>elements = [1, 2, 3 :: int], allocated = 4\<rparr>" Size]
  by (simp add: isRestricted_FlagProxy proxy_begin_def proxy_end_def proxy_size_def
      proxy_clear_def DenseVector_fields dv_end_def dv_size_def dv_clear_def)

subsection \<open>C4: the queries and the constant iterators are not gated\<close>

text \<open>
  C4. Whatever \<^verbatim>\<open>isRestricted()\<close> returns, \<^verbatim>\<open>size()\<close>, \<^verbatim>\<open>capacity()\<close>,
  \<^verbatim>\<open>nonZeros()\<close>, \<^verbatim>\<open>cbegin()\<close> and \<^verbatim>\<open>cend()\<close> return what the same operation
  returns when called on the Representee: the proxy adds no failure.
\<close>

theorem queries_forward:
  "proxy_size pt vt px v = vt_size vt v
   \<and> proxy_capacity pt vt px v = vt_capacity vt v
   \<and> proxy_nonZeros pt vt px v = vt_nonZeros vt v
   \<and> proxy_cbegin pt vt px v = vt_cbegin vt v
   \<and> proxy_cend pt vt px v = vt_cend vt v"
  by (simp add: proxy_size_def proxy_capacity_def proxy_nonZeros_def proxy_cbegin_def
      proxy_cend_def)

theorem queries_forward_witness:
  "isRestricted FlagProxy True
   \<and> proxy_size FlagProxy DenseVector True \<lparr>elements = [1, 0, 3 :: int], allocated = 4\<rparr> =
       (Inr 3, \<lparr>elements = [1, 0, 3], allocated = 4\<rparr>)
   \<and> proxy_capacity FlagProxy DenseVector True \<lparr>elements = [1, 0, 3 :: int], allocated = 4\<rparr> =
       (Inr 4, \<lparr>elements = [1, 0, 3], allocated = 4\<rparr>)
   \<and> proxy_nonZeros FlagProxy DenseVector True \<lparr>elements = [1, 0, 3 :: int], allocated = 4\<rparr> =
       (Inr 2, \<lparr>elements = [1, 0, 3], allocated = 4\<rparr>)
   \<and> proxy_cbegin FlagProxy DenseVector True \<lparr>elements = [1, 0, 3 :: int], allocated = 4\<rparr> =
       (Inr 0, \<lparr>elements = [1, 0, 3], allocated = 4\<rparr>)
   \<and> proxy_cend FlagProxy DenseVector True \<lparr>elements = [1, 0, 3 :: int], allocated = 4\<rparr> =
       (Inr 3, \<lparr>elements = [1, 0, 3], allocated = 4\<rparr>)"
  using queries_forward [of FlagProxy DenseVector True
      "\<lparr>elements = [1, 0, 3 :: int], allocated = 4\<rparr>"]
  by (simp add: isRestricted_FlagProxy DenseVector_fields dv_size_def dv_capacity_def
      dv_nonZeros_def dv_begin_def dv_end_def)

subsection \<open>C5: an unrestricted proxy forwards every gated operation\<close>

text \<open>
  C5. When \<^verbatim>\<open>isRestricted()\<close> is false, each gated operation is the Representee's
  operation on the same arguments: the value it returns, the exception it
  throws and the vector it leaves are those of the Representee. For
  \<^verbatim>\<open>operator[]\<close> this holds at every index, so the proxy checks no bound.
\<close>

theorem unrestricted_gate_forwards:
  assumes "\<not> isRestricted pt px"
  shows "proxy_subscript pt vt px index v = vt_subscript vt index v
       \<and> proxy_data pt vt px v = vt_data vt v
       \<and> proxy_begin pt vt px v = vt_begin vt v
       \<and> proxy_end pt vt px v = vt_end vt v
       \<and> proxy_resize pt vt px n preserve v = vt_resize vt n preserve v
       \<and> proxy_extend pt vt px n preserve v = vt_extend vt n preserve v
       \<and> proxy_reserve pt vt px n v = vt_reserve vt n v
       \<and> proxy_scale pt vt px scalar v = vt_scale vt scalar v"
  using assms
  by (simp add: proxy_subscript_def proxy_data_def proxy_begin_def proxy_end_def
      proxy_resize_def proxy_extend_def proxy_reserve_def proxy_scale_def)

theorem unrestricted_gate_forwards_witness:
  "\<not> isRestricted FlagProxy False
   \<and> proxy_subscript FlagProxy DenseVector False 7 \<lparr>elements = [1, 2, 3 :: int], allocated = 4\<rparr> =
       (Inl (out_of_range ''Invalid vector access index''),
        \<lparr>elements = [1, 2, 3], allocated = 4\<rparr>)
   \<and> proxy_resize FlagProxy DenseVector False 5 True \<lparr>elements = [1, 2, 3 :: int], allocated = 4\<rparr> =
       (Inr (), \<lparr>elements = [1, 2, 3, 0, 0], allocated = 5\<rparr>)
   \<and> proxy_scale FlagProxy DenseVector False 2 \<lparr>elements = [1, 2, 3 :: int], allocated = 4\<rparr> =
       (Inr (), \<lparr>elements = [2, 4, 6], allocated = 4\<rparr>)"
  using unrestricted_gate_forwards [of FlagProxy False DenseVector 7
      "\<lparr>elements = [1, 2, 3 :: int], allocated = 4\<rparr>" 5 True 2]
  by (simp add: isRestricted_FlagProxy DenseVector_fields dv_subscript_def dv_resize_def
      dv_scale_def replicate_two)

subsection \<open>C6: writing through an unrestricted proxy\<close>

text \<open>
  C6. On an unrestricted proxy of a dense vector, for an index below
  \<^verbatim>\<open>size()\<close>, the assignment \<^verbatim>\<open>proxy[index] = x\<close> succeeds, and reading that index
  on the vector itself afterwards yields \<open>x\<close>.
\<close>

theorem proxy_write_then_read:
  assumes "\<not> isRestricted pt px"
    and "proxy_size pt DenseVector px v = (Inr n, v)"
    and "index < n"
  shows "fst (proxy_assign_element pt px index x v) = Inr ()
       \<and> representee_read index (snd (proxy_assign_element pt px index x v)) = Some x"
  using assms
  by (simp add: proxy_assign_element_def representee_read_def proxy_subscript_def
      proxy_size_def DenseVector_fields dv_subscript_def dv_size_def reference_assign_def
      reference_value_def)

theorem proxy_write_then_read_witness:
  "\<not> isRestricted FlagProxy False
   \<and> proxy_size FlagProxy DenseVector False \<lparr>elements = [1, 2, 3 :: int], allocated = 4\<rparr> =
       (Inr 3, \<lparr>elements = [1, 2, 3], allocated = 4\<rparr>)
   \<and> (1 :: nat) < 3
   \<and> proxy_assign_element FlagProxy False 1 9 \<lparr>elements = [1, 2, 3 :: int], allocated = 4\<rparr> =
       (Inr (), \<lparr>elements = [1, 9, 3], allocated = 4\<rparr>)
   \<and> representee_read 1
       (snd (proxy_assign_element FlagProxy False 1 9 \<lparr>elements = [1, 2, 3 :: int], allocated = 4\<rparr>)) =
       Some 9"
proof -
  have unrestricted: "\<not> isRestricted FlagProxy False"
    by (simp add: isRestricted_FlagProxy)
  have size: "proxy_size FlagProxy DenseVector False \<lparr>elements = [1, 2, 3 :: int], allocated = 4\<rparr> =
      (Inr 3, \<lparr>elements = [1, 2, 3], allocated = 4\<rparr>)"
    by (simp add: proxy_size_def DenseVector_fields dv_size_def)
  have written: "proxy_assign_element FlagProxy False 1 9 \<lparr>elements = [1, 2, 3 :: int], allocated = 4\<rparr> =
      (Inr (), \<lparr>elements = [1, 9, 3], allocated = 4\<rparr>)"
    by (simp add: proxy_assign_element_def proxy_subscript_def isRestricted_FlagProxy
        DenseVector_fields dv_subscript_def reference_assign_def)
  from proxy_write_then_read [OF unrestricted size, of 1 9] unrestricted size written
  show ?thesis by simp
qed

subsection \<open>C7: the predicate is asked at every gated call\<close>

text \<open>
  C7. In any sequence of calls, a gated call made when the proxy object is
  \<open>px\<close> is denied if \<^verbatim>\<open>isRestricted()\<close> is true of \<open>px\<close> and is the Representee's
  operation if it is false, whatever the predicate returned at the calls
  before it: the class keeps nothing from one call to the next.
\<close>

theorem gate_decided_at_each_call:
  assumes "gated c"
  shows "calls pt vt (cs @ [(px, c)]) v =
    (case calls pt vt cs v of
       (outs, v') \<Rightarrow>
         if isRestricted pt px
         then (outs @ [Inl (invalid_argument ''Invalid access to restricted element'')], v')
         else (case representee_call vt c v' of (out, v'') \<Rightarrow> (outs @ [out], v'')))"
  using assms by (simp add: calls_append gated_member split: prod.splits)

theorem gate_decided_at_each_call_witness:
  "gated (Scale (2 :: int))
   \<and> calls FlagProxy DenseVector ([(True, Scale 2), (False, Scale 2)] @ [(True, Scale 2)])
       \<lparr>elements = [1, 2, 3 :: int], allocated = 4\<rparr> =
     ([Inl (invalid_argument ''Invalid access to restricted element''), Inr Void,
       Inl (invalid_argument ''Invalid access to restricted element'')],
      \<lparr>elements = [2, 4, 6], allocated = 4\<rparr>)
   \<and> calls FlagProxy DenseVector ([(True, Scale 2), (True, Scale 2)] @ [(False, Scale 2)])
       \<lparr>elements = [1, 2, 3 :: int], allocated = 4\<rparr> =
     ([Inl (invalid_argument ''Invalid access to restricted element''),
       Inl (invalid_argument ''Invalid access to restricted element''), Inr Void],
      \<lparr>elements = [2, 4, 6], allocated = 4\<rparr>)"
proof -
  have g: "gated (Scale (2 :: int))" by simp
  have first: "calls FlagProxy DenseVector [(True, Scale 2), (False, Scale 2)]
      \<lparr>elements = [1, 2, 3 :: int], allocated = 4\<rparr> =
      ([Inl (invalid_argument ''Invalid access to restricted element''), Inr Void],
       \<lparr>elements = [2, 4, 6], allocated = 4\<rparr>)"
    by (simp add: returning_def proxy_scale_def isRestricted_FlagProxy DenseVector_fields
        dv_scale_def)
  have second: "calls FlagProxy DenseVector [(True, Scale 2), (True, Scale 2)]
      \<lparr>elements = [1, 2, 3 :: int], allocated = 4\<rparr> =
      ([Inl (invalid_argument ''Invalid access to restricted element''),
        Inl (invalid_argument ''Invalid access to restricted element'')],
       \<lparr>elements = [1, 2, 3], allocated = 4\<rparr>)"
    by (simp add: returning_def proxy_scale_def isRestricted_FlagProxy)
  from gate_decided_at_each_call [OF g, of FlagProxy DenseVector
      "[(True, Scale 2), (False, Scale 2)]" True "\<lparr>elements = [1, 2, 3], allocated = 4\<rparr>"]
    gate_decided_at_each_call [OF g, of FlagProxy DenseVector
      "[(True, Scale 2), (True, Scale 2)]" False "\<lparr>elements = [1, 2, 3], allocated = 4\<rparr>"]
    g first second
  show ?thesis
    by (simp add: isRestricted_FlagProxy returning_def DenseVector_fields dv_scale_def)
qed

subsection \<open>C8: one error for every denied operation\<close>

text \<open>
  C8. On a restricted proxy, every gated operation throws
  \<^verbatim>\<open>std::invalid_argument\<close> with the message
  \<^verbatim>\<open>Invalid access to restricted element\<close>: two denied calls throw equal
  exceptions, whichever the operations, the arguments and the vectors are.
\<close>

theorem denied_error_uniform:
  assumes "isRestricted pt px" and "gated c" and "gated c'"
  shows "fst (proxy_member pt vt px c v) =
           Inl (invalid_argument ''Invalid access to restricted element'')
       \<and> fst (proxy_member pt vt px c v) = fst (proxy_member pt vt px c' v')"
  using assms by (simp add: gated_member)

theorem denied_error_uniform_witness:
  "isRestricted FlagProxy True \<and> gated (Subscript 1 :: int operation) \<and> gated (Scale (2 :: int))
   \<and> fst (proxy_member FlagProxy DenseVector True (Subscript 1)
            \<lparr>elements = [1, 2, 3 :: int], allocated = 4\<rparr>) =
       Inl (invalid_argument ''Invalid access to restricted element'')
   \<and> fst (proxy_member FlagProxy DenseVector True (Subscript 1)
            \<lparr>elements = [1, 2, 3 :: int], allocated = 4\<rparr>) =
       fst (proxy_member FlagProxy DenseVector True (Scale 2)
            \<lparr>elements = [5 :: int], allocated = 1\<rparr>)"
proof -
  have r: "isRestricted FlagProxy True" by (simp add: isRestricted_FlagProxy)
  have g: "gated (Subscript 1 :: int operation)" by simp
  have g': "gated (Scale (2 :: int))" by simp
  from denied_error_uniform [OF r g g', of DenseVector
      "\<lparr>elements = [1, 2, 3], allocated = 4\<rparr>" "\<lparr>elements = [5], allocated = 1\<rparr>"] r g g'
  show ?thesis by blast
qed

subsection \<open>C9: the unchecked operations do not depend on the predicate\<close>

text \<open>
  C9. For two proxies of the same Representee, of any proxy types and with any
  values of \<^verbatim>\<open>isRestricted()\<close>, each of \<^verbatim>\<open>size\<close>, \<^verbatim>\<open>capacity\<close>, \<^verbatim>\<open>nonZeros\<close>,
  \<^verbatim>\<open>cbegin\<close>, \<^verbatim>\<open>cend\<close>, \<^verbatim>\<open>reset\<close> and \<^verbatim>\<open>clear\<close> returns the same result and
  leaves the same vector.
\<close>

theorem unchecked_ignore_predicate:
  "proxy_size pt vt px v = proxy_size pt' vt px' v
   \<and> proxy_capacity pt vt px v = proxy_capacity pt' vt px' v
   \<and> proxy_nonZeros pt vt px v = proxy_nonZeros pt' vt px' v
   \<and> proxy_cbegin pt vt px v = proxy_cbegin pt' vt px' v
   \<and> proxy_cend pt vt px v = proxy_cend pt' vt px' v
   \<and> proxy_reset pt vt px v = proxy_reset pt' vt px' v
   \<and> proxy_clear pt vt px v = proxy_clear pt' vt px' v"
  by (simp add: proxy_size_def proxy_capacity_def proxy_nonZeros_def proxy_cbegin_def
      proxy_cend_def proxy_reset_def proxy_clear_def)

theorem unchecked_ignore_predicate_witness:
  "isRestricted FlagProxy True \<and> \<not> isRestricted FlagProxy False
   \<and> proxy_nonZeros FlagProxy DenseVector True \<lparr>elements = [1, 0, 3 :: int], allocated = 4\<rparr> =
     proxy_nonZeros FlagProxy DenseVector False \<lparr>elements = [1, 0, 3 :: int], allocated = 4\<rparr>
   \<and> proxy_reset FlagProxy DenseVector False \<lparr>elements = [1, 0, 3 :: int], allocated = 4\<rparr> =
       (Inr (), \<lparr>elements = [0, 0, 0], allocated = 4\<rparr>)
   \<and> proxy_reset FlagProxy DenseVector True \<lparr>elements = [1, 0, 3 :: int], allocated = 4\<rparr> =
       (Inr (), \<lparr>elements = [0, 0, 0], allocated = 4\<rparr>)"
proof -
  have unrestricted: "proxy_reset FlagProxy DenseVector False
      \<lparr>elements = [1, 0, 3 :: int], allocated = 4\<rparr> =
      (Inr (), \<lparr>elements = [0, 0, 0], allocated = 4\<rparr>)"
    by (simp add: proxy_reset_def DenseVector_fields dv_reset_def)
  from unchecked_ignore_predicate [of FlagProxy DenseVector True
      "\<lparr>elements = [1, 0, 3 :: int], allocated = 4\<rparr>" FlagProxy False] unrestricted
  show ?thesis by (simp add: isRestricted_FlagProxy)
qed

subsection \<open>C10: the default of the preserve flag\<close>

text \<open>
  C10. The calls \<^verbatim>\<open>resize( n )\<close> and \<^verbatim>\<open>extend( n )\<close> are the calls
  \<^verbatim>\<open>resize( n, true )\<close> and \<^verbatim>\<open>extend( n, true )\<close>.
\<close>

theorem preserve_defaults_to_true:
  "call_resize pt vt px n None v = call_resize pt vt px n (Some True) v
   \<and> call_resize pt vt px n None v = proxy_resize pt vt px n True v
   \<and> call_extend pt vt px n None v = call_extend pt vt px n (Some True) v
   \<and> call_extend pt vt px n None v = proxy_extend pt vt px n True v"
  by (simp add: call_resize_def call_extend_def resize_default_preserve_def
      extend_default_preserve_def)

theorem preserve_defaults_to_true_witness:
  "call_resize FlagProxy DenseVector False 2 None \<lparr>elements = [1, 2, 3 :: int], allocated = 4\<rparr> =
     (Inr (), \<lparr>elements = [1, 2], allocated = 4\<rparr>)
   \<and> call_resize FlagProxy DenseVector False 2 (Some False) \<lparr>elements = [1, 2, 3 :: int], allocated = 4\<rparr> =
     (Inr (), \<lparr>elements = [0, 0], allocated = 4\<rparr>)
   \<and> call_extend FlagProxy DenseVector False 2 None \<lparr>elements = [1, 2, 3 :: int], allocated = 4\<rparr> =
     (Inr (), \<lparr>elements = [1, 2, 3, 0, 0], allocated = 5\<rparr>)
   \<and> call_extend FlagProxy DenseVector False 2 (Some False) \<lparr>elements = [1, 2, 3 :: int], allocated = 4\<rparr> =
     (Inr (), \<lparr>elements = [0, 0, 0, 0, 0], allocated = 5\<rparr>)"
proof -
  have resize_true: "call_resize FlagProxy DenseVector False 2 (Some True)
        \<lparr>elements = [1, 2, 3 :: int], allocated = 4\<rparr> =
      (Inr (), \<lparr>elements = [1, 2], allocated = 4\<rparr>)"
    by code_simp
  have resize_false: "call_resize FlagProxy DenseVector False 2 (Some False)
        \<lparr>elements = [1, 2, 3 :: int], allocated = 4\<rparr> =
      (Inr (), \<lparr>elements = [0, 0], allocated = 4\<rparr>)"
    by code_simp
  have extend_true: "call_extend FlagProxy DenseVector False 2 (Some True)
        \<lparr>elements = [1, 2, 3 :: int], allocated = 4\<rparr> =
      (Inr (), \<lparr>elements = [1, 2, 3, 0, 0], allocated = 5\<rparr>)"
    by code_simp
  have extend_false: "call_extend FlagProxy DenseVector False 2 (Some False)
        \<lparr>elements = [1, 2, 3 :: int], allocated = 4\<rparr> =
      (Inr (), \<lparr>elements = [0, 0, 0, 0, 0], allocated = 5\<rparr>)"
    by code_simp
  from preserve_defaults_to_true [of FlagProxy DenseVector False 2
      "\<lparr>elements = [1, 2, 3 :: int], allocated = 4\<rparr>"]
    resize_true resize_false extend_true extend_false
  show ?thesis by simp
qed

end
